theory Spec2Isabelle
  imports Complex_Main
begin

section \<open>Shared value types\<close>

text \<open>
  The \<open>Numeric(10, 2)\<close> columns of products and cart lines hold decimals, modelled
  as exact rationals. The totals of an order are computed in Python floats; they are
  modelled with the doubles of the section on Python numbers. Python integers are
  unbounded, hence \<open>int\<close>. A \<open>datetime\<close> value is the record of its calendar fields.

  Names follow the source. The column \<open>id\<close> is the field \<open>ident\<close>, and the column
  \<open>notes\<close> of an order is the field \<open>order_notes\<close>. Several classes have columns of
  one name, so a field is written with its record, as in \<open>cart_item.quantity\<close>; a
  parameter \<open>quantity\<close> is written \<open>qty\<close>.
\<close>

type_synonym amount = rat

record datetime =
  year :: nat
  month :: nat
  day :: nat
  hour :: nat
  minute :: nat
  second :: nat
  microsecond :: nat

text \<open>
  The methods read the clock with \<open>datetime.utcnow()\<close>, sometimes several times in
  one call. A clock is the sequence of readings a call obtains: \<open>utcnow k\<close> is the
  reading number \<open>k\<close> of that call.
\<close>

type_synonym clock = "nat \<Rightarrow> datetime"

text \<open>The exceptions raised by the model classes, one constructor per raise site.\<close>

datatype error =
    QuantityMustBePositive
  | InsufficientStockRequested int int
  | StockCannotBeNegative
  | ProductNotFoundOrInactive
  | InsufficientStock int
  | ItemNotFoundInCart
  | AttributeErrorNone
  | TypeError

section \<open>Product (app/models/product.py)\<close>

record product =
  ident :: int
  price :: amount
  sale_price :: "amount option"
  stock_quantity :: int
  category_id :: int
  is_active :: bool
  updated_at :: "datetime option"

text \<open>
  Python's truth test on an optional numeric column: \<open>None\<close> is false, and so is a
  number equal to zero.
\<close>

definition truthy_amount :: "amount option \<Rightarrow> bool" where
  "truthy_amount a = (case a of None \<Rightarrow> False | Some v \<Rightarrow> v \<noteq> 0)"

definition get_display_price :: "product \<Rightarrow> amount" where
  "get_display_price p =
     (if truthy_amount (sale_price p) then the (sale_price p) else product.price p)"

definition get_effective_price :: "product \<Rightarrow> amount" where
  "get_effective_price p = get_display_price p"

definition is_on_sale :: "product \<Rightarrow> bool" where
  "is_on_sale p = (case sale_price p of None \<Rightarrow> False | Some s \<Rightarrow> s < product.price p)"

text \<open>
  The stock methods mutate the product and may raise. The model returns the outcome
  together with the product as the call leaves it.
\<close>

definition reserve_stock :: "clock \<Rightarrow> product \<Rightarrow> int \<Rightarrow> (error + bool) \<times> product" where
  "reserve_stock utcnow p qty =
     (if qty \<le> 0 then (Inl QuantityMustBePositive, p)
      else if stock_quantity p < qty
        then (Inl (InsufficientStockRequested (stock_quantity p) qty), p)
      else (Inr True,
            p\<lparr>stock_quantity := stock_quantity p - qty,
              product.updated_at := Some (utcnow 0)\<rparr>))"

definition release_stock :: "clock \<Rightarrow> product \<Rightarrow> int \<Rightarrow> (error + bool) \<times> product" where
  "release_stock utcnow p qty =
     (if qty \<le> 0 then (Inl QuantityMustBePositive, p)
      else (Inr True,
            p\<lparr>stock_quantity := stock_quantity p + qty,
              product.updated_at := Some (utcnow 0)\<rparr>))"

definition update_stock :: "clock \<Rightarrow> product \<Rightarrow> int \<Rightarrow> (error + unit) \<times> product" where
  "update_stock utcnow p new_quantity =
     (if new_quantity < 0 then (Inl StockCannotBeNegative, p)
      else (Inr (),
            p\<lparr>stock_quantity := new_quantity,
              product.updated_at := Some (utcnow 0)\<rparr>))"

section \<open>Cart and CartItem (app/models/cart.py)\<close>

text \<open>
  A cart line. The columns that the cart methods neither read nor write (the primary
  key and \<open>created_at\<close>) are left out. \<open>price\<close> is the unit price stored when the
  line was created.
\<close>

record cart_item =
  cart_id :: int
  product_id :: int
  quantity :: int
  price :: amount
  updated_at :: "datetime option"

text \<open>\<open>items\<close> is the relationship collection, in insertion order.\<close>

record cart =
  ident :: int
  items :: "cart_item list"
  updated_at :: "datetime option"

text \<open>
  The product table, keyed by primary key: \<open>Product.query.get(product_id)\<close> is the
  lookup, and \<open>Product.query.filter_by(id=product_id, is_active=True).first()\<close> is the
  lookup restricted to active products.
\<close>

type_synonym product_table = "int \<rightharpoonup> product"

definition query_get :: "product_table \<Rightarrow> int \<Rightarrow> product option" where
  "query_get products pid = products pid"

definition query_active :: "product_table \<Rightarrow> int \<Rightarrow> product option" where
  "query_active products pid =
     (case products pid of
        None \<Rightarrow> None
      | Some p \<Rightarrow> if product.is_active p then Some p else None)"

definition get_item_by_product :: "cart \<Rightarrow> int \<Rightarrow> cart_item option" where
  "get_item_by_product c pid = find (\<lambda>item. cart_item.product_id item = pid) (cart.items c)"

text \<open>
  \<open>get_item_by_product\<close> returns the first line of the product, and the methods then
  assign to that object's attributes. On the list of lines this rewrites the first
  element that satisfies the test and no other.
\<close>

fun mutate_first :: "('a \<Rightarrow> bool) \<Rightarrow> ('a \<Rightarrow> 'a) \<Rightarrow> 'a list \<Rightarrow> 'a list" where
  "mutate_first P f [] = []"
| "mutate_first P f (x # xs) = (if P x then f x # xs else x # mutate_first P f xs)"

text \<open>
  \<open>add_item\<close>: every \<open>raise\<close> comes before the first assignment, so the cart
  returned with an error is the cart passed in. When the commit inserts a new line,
  the column defaults read the clock for \<open>created_at\<close> and then for \<open>updated_at\<close>.
\<close>

definition add_item ::
  "clock \<Rightarrow> product_table \<Rightarrow> cart \<Rightarrow> int \<Rightarrow> int \<Rightarrow> (error + cart_item) \<times> cart" where
  "add_item utcnow products c pid qty =
     (case query_active products pid of
        None \<Rightarrow> (Inl ProductNotFoundOrInactive, c)
      | Some p \<Rightarrow>
          let existing_item = get_item_by_product c pid;
              total_quantity =
                qty + (case existing_item of
                         Some item \<Rightarrow> cart_item.quantity item
                       | None \<Rightarrow> 0)
          in if total_quantity > stock_quantity p
             then (Inl (InsufficientStock (stock_quantity p)), c)
             else
               (case existing_item of
                  Some item \<Rightarrow>
                    let bump = (\<lambda>i. i\<lparr>cart_item.quantity := cart_item.quantity i + qty,
                                       cart_item.updated_at := Some (utcnow 0)\<rparr>)
                    in (Inr (bump item),
                        c\<lparr>cart.items := mutate_first (\<lambda>i. cart_item.product_id i = pid) bump (cart.items c),
                          cart.updated_at := Some (utcnow 1)\<rparr>)
                | None \<Rightarrow>
                    let new_item =
                          \<lparr>cart_id = cart.ident c, cart_item.product_id = pid,
                           cart_item.quantity = qty,
                           cart_item.price = get_effective_price p,
                           cart_item.updated_at = Some (utcnow 2)\<rparr>
                    in (Inr new_item,
                        c\<lparr>cart.items := cart.items c @ [new_item],
                          cart.updated_at := Some (utcnow 0)\<rparr>)))"

definition remove_item :: "clock \<Rightarrow> cart \<Rightarrow> int \<Rightarrow> cart" where
  "remove_item utcnow c pid =
     (case get_item_by_product c pid of
        Some item \<Rightarrow>
          c\<lparr>cart.items := remove1 item (cart.items c), cart.updated_at := Some (utcnow 0)\<rparr>
      | None \<Rightarrow> c)"

text \<open>
  \<open>update_item_quantity\<close>: \<open>Product.query.get\<close> returns \<open>None\<close> for a missing
  row, and reading \<open>stock_quantity\<close> of \<open>None\<close> raises \<open>AttributeError\<close>.
\<close>

definition update_item_quantity ::
  "clock \<Rightarrow> product_table \<Rightarrow> cart \<Rightarrow> int \<Rightarrow> int \<Rightarrow> (error + unit) \<times> cart" where
  "update_item_quantity utcnow products c pid qty =
     (case get_item_by_product c pid of
        None \<Rightarrow> (Inl ItemNotFoundInCart, c)
      | Some item \<Rightarrow>
          if qty \<le> 0 then (Inr (), remove_item utcnow c pid)
          else
            (case query_get products pid of
               None \<Rightarrow> (Inl AttributeErrorNone, c)
             | Some p \<Rightarrow>
                 if qty > stock_quantity p
                 then (Inl (InsufficientStock (stock_quantity p)), c)
                 else
                   (Inr (),
                    c\<lparr>cart.items :=
                        mutate_first (\<lambda>i. cart_item.product_id i = pid)
                          (\<lambda>i. i\<lparr>cart_item.quantity := qty,
                                 cart_item.updated_at := Some (utcnow 0)\<rparr>)
                          (cart.items c),
                      cart.updated_at := Some (utcnow 1)\<rparr>)))"

definition clear_cart :: "clock \<Rightarrow> cart \<Rightarrow> cart" where
  "clear_cart utcnow c = c\<lparr>cart.items := [], cart.updated_at := Some (utcnow 0)\<rparr>"

definition get_total_price :: "cart_item \<Rightarrow> amount" where
  "get_total_price item = cart_item.price item * of_int (cart_item.quantity item)"

text \<open>
  The uniqueness constraint \<open>unique_cart_product\<close> on \<open>(cart_id, product_id)\<close>, read
  on one cart: no two lines of the cart have the same product.
\<close>

definition unique_cart_product :: "cart \<Rightarrow> bool" where
  "unique_cart_product c = distinct (map cart_item.product_id (cart.items c))"

text \<open>The quantity a cart already holds of a product, 0 when it has no line for it.\<close>

definition held_quantity :: "cart \<Rightarrow> int \<Rightarrow> int" where
  "held_quantity c pid =
     (case get_item_by_product c pid of
        Some item \<Rightarrow> cart_item.quantity item
      | None \<Rightarrow> 0)"

section \<open>Python numbers\<close>

text \<open>
  A Python \<open>float\<close> is an IEEE double. A double is a rational number, and the model
  keeps it as that number. \<open>round_double x\<close> is the double nearest to \<open>x\<close>, ties
  going to the even significand of 53 bits; overflow and subnormal numbers, which
  amounts of at most ten digits never reach, are not modelled.
\<close>

fun bit_length :: "nat \<Rightarrow> nat" where
  "bit_length n = (if n = 0 then 0 else Suc (bit_length (n div 2)))"

declare bit_length.simps [simp del]

definition pow2 :: "int \<Rightarrow> rat" where
  "pow2 e = (if 0 \<le> e then 2 ^ nat e else 1 / 2 ^ nat (- e))"

text \<open>For \<open>0 < x\<close>, the exponent \<open>k\<close> with \<open>pow2 k \<le> x < pow2 (k + 1)\<close>.\<close>

definition floor_log2 :: "rat \<Rightarrow> int" where
  "floor_log2 x =
     (if 1 \<le> x then int (bit_length (nat \<lfloor>x\<rfloor>)) - 1
      else - int (bit_length (nat (\<lceil>1 / x\<rceil> - 1))))"

definition round_half_even :: "rat \<Rightarrow> int" where
  "round_half_even x =
     (let f = \<lfloor>x\<rfloor>; r = x - of_int f
      in if r < 1 / 2 then f
         else if 1 / 2 < r then f + 1
         else if even f then f else f + 1)"

definition round_double :: "rat \<Rightarrow> rat" where
  "round_double x =
     (if x = 0 then 0
      else let e = floor_log2 \<bar>x\<bar> - 52
           in of_int (round_half_even (x / pow2 e)) * pow2 e)"

text \<open>
  The numbers an amount attribute can hold: an \<open>int\<close> (the default 0 of the
  constructor), a \<open>float\<close>, or a \<open>Decimal\<close> (a value loaded from a
  \<open>Numeric\<close> column).
\<close>

datatype pynum = PyInt int | PyFloat rat | PyDecimal rat










section \<open>Order and OrderItem (app/models/order.py)\<close>

datatype OrderStatus =
  PENDING | CONFIRMED | PROCESSING | SHIPPED | DELIVERED | CANCELLED | RETURNED

text \<open>The \<open>value\<close> of each member of the enumeration.\<close>

fun status_value :: "OrderStatus \<Rightarrow> string" where
  "status_value PENDING = ''pending''"
| "status_value CONFIRMED = ''confirmed''"
| "status_value PROCESSING = ''processing''"
| "status_value SHIPPED = ''shipped''"
| "status_value DELIVERED = ''delivered''"
| "status_value CANCELLED = ''cancelled''"
| "status_value RETURNED = ''returned''"

record order_item =
  order_id :: int
  product_id :: int
  quantity :: int
  price :: pynum

record order =
  status :: OrderStatus
  subtotal_amount :: pynum
  tax_amount :: pynum
  shipping_amount :: pynum
  discount_amount :: pynum
  total_amount :: pynum
  order_notes :: "string option"
  items :: "order_item list"
  updated_at :: "datetime option"
  confirmed_at :: "datetime option"
  shipped_at :: "datetime option"
  delivered_at :: "datetime option"






subsection \<open>Text of the status note\<close>

text \<open>
  Strings are lists of characters, a character being a code point below 256.
  \<open>str(datetime)\<close> is the ISO form with a space between date and time; the
  microseconds are printed only when they are not zero.
\<close>

definition digit_char :: "nat \<Rightarrow> char" where
  "digit_char n = ''0123456789'' ! (n mod 10)"

fun decimal :: "nat \<Rightarrow> string" where
  "decimal n =
     (if n < 10 then [digit_char n] else decimal (n div 10) @ [digit_char (n mod 10)])"

declare decimal.simps [simp del]

definition zero_pad :: "nat \<Rightarrow> nat \<Rightarrow> string" where
  "zero_pad w n = replicate (w - length (decimal n)) (CHR ''0'') @ decimal n"

definition str_datetime :: "datetime \<Rightarrow> string" where
  "str_datetime d =
     zero_pad 4 (year d) @ ''-'' @ zero_pad 2 (month d) @ ''-'' @ zero_pad 2 (day d) @
     '' '' @ zero_pad 2 (hour d) @ '':'' @ zero_pad 2 (minute d) @ '':'' @
     zero_pad 2 (second d) @
     (if microsecond d = 0 then [] else ''.'' @ zero_pad 6 (microsecond d))"

text \<open>
  The characters that \<open>str.strip()\<close> removes from both ends: those for which
  \<open>str.isspace\<close> holds, here the ones below 256.
\<close>

definition isspace :: "char \<Rightarrow> bool" where
  "isspace c = ((of_char c :: nat) \<in> {9, 10, 11, 12, 13, 28, 29, 30, 31, 32, 133, 160})"

definition strip :: "string \<Rightarrow> string" where
  "strip s = rev (dropWhile isspace (rev (dropWhile isspace s)))"

text \<open>Python's truth test on an optional string: \<open>None\<close> and \<open>''\<close> are false.\<close>

definition truthy_str :: "string option \<Rightarrow> bool" where
  "truthy_str s = (case s of None \<Rightarrow> False | Some v \<Rightarrow> v \<noteq> [])"

text \<open>\<open>self.notes or ''\<close>.\<close>

definition or_empty :: "string option \<Rightarrow> string" where
  "or_empty s = (if truthy_str s then the s else [])"

text \<open>
  \<open>update_status\<close>. The clock is read for \<open>updated_at\<close>, then for the timestamp of
  the new status when it has one, then for the note.
\<close>

definition update_status :: "clock \<Rightarrow> order \<Rightarrow> OrderStatus \<Rightarrow> string option \<Rightarrow> order" where
  "update_status utcnow ord new_status note =
     (let old_status = status ord;
          o1 = ord\<lparr>status := new_status, order.updated_at := Some (utcnow 0)\<rparr>;
          o2 = (if new_status = CONFIRMED then o1\<lparr>confirmed_at := Some (utcnow 1)\<rparr>
                else if new_status = SHIPPED then o1\<lparr>shipped_at := Some (utcnow 1)\<rparr>
                else if new_status = DELIVERED then o1\<lparr>delivered_at := Some (utcnow 1)\<rparr>
                else o1);
          k = (if new_status \<in> {CONFIRMED, SHIPPED, DELIVERED} then 2 else 1)
      in if truthy_str note
         then o2\<lparr>order_notes :=
                  Some (strip (or_empty (order_notes o2) @ [CHR 0x0A] @ str_datetime (utcnow k) @
                          '': Status changed from '' @ status_value old_status @
                          '' to '' @ status_value new_status @ ''. '' @ the note))\<rparr>
         else o2)"

text \<open>
  The line as the specification writes it:
  \<open><timestamp>: Status changed from <old> to <new>. <note>\<close>.
\<close>

definition status_line :: "string \<Rightarrow> string \<Rightarrow> string \<Rightarrow> string \<Rightarrow> string" where
  "status_line timestamp old new note =
     timestamp @ '': Status changed from '' @ old @ '' to '' @ new @ ''. '' @ note"

text \<open>The reading of the clock that \<open>update_status\<close> prints in the note.\<close>

definition note_time :: "clock \<Rightarrow> OrderStatus \<Rightarrow> datetime" where
  "note_time utcnow new_status =
     utcnow (if new_status \<in> {CONFIRMED, SHIPPED, DELIVERED} then 2 else 1)"

section \<open>User (app/models/user.py)\<close>

record user =
  ident :: int
  username :: string
  email :: string
  password_hash :: string
  is_active :: bool
  last_login :: "datetime option"

text \<open>
  \<open>check_password_hash\<close> belongs to the password library; the model takes it as a
  parameter: \<open>check pwhash password\<close>.
\<close>

type_synonym hash_check = "string \<Rightarrow> string \<Rightarrow> bool"

definition check_password :: "hash_check \<Rightarrow> user \<Rightarrow> string \<Rightarrow> bool" where
  "check_password check u password = check (password_hash u) password"

definition update_last_login :: "clock \<Rightarrow> user \<Rightarrow> user" where
  "update_last_login utcnow u = u\<lparr>last_login := Some (utcnow 0)\<rparr>"

text \<open>The filter of the query in \<open>authenticate\<close>.\<close>

definition matches_login :: "string \<Rightarrow> user \<Rightarrow> bool" where
  "matches_login username_or_email u =
     (username u = username_or_email \<or> email u = username_or_email)"

text \<open>
  \<open>authenticate\<close> on the table of users, rows in the order the query yields them:
  \<open>first()\<close> is the first row that passes the filter. The result is the user
  returned, if any, and the table as the call leaves it.
\<close>

definition authenticate ::
  "hash_check \<Rightarrow> clock \<Rightarrow> user list \<Rightarrow> string \<Rightarrow> string \<Rightarrow> user option \<times> user list" where
  "authenticate check utcnow users username_or_email password =
     (case find (matches_login username_or_email) users of
        None \<Rightarrow> (None, users)
      | Some u \<Rightarrow>
          if check_password check u password \<and> user.is_active u
          then (Some (update_last_login utcnow u),
                mutate_first (matches_login username_or_email)
                  (update_last_login utcnow) users)
          else (None, users))"

section \<open>Category and its deletion (app/models/product.py, app/admin/routes.py)\<close>

record category =
  ident :: int
  name :: string
  image_filename :: "string option"

text \<open>
  The state the route works on: the two tables and the files of the upload folder.
\<close>

record shop_db =
  categories :: "category list"
  products :: "product list"
  uploads :: "string list"

text \<open>
  \<open>Category.products\<close> is declared with \<open>lazy='dynamic'\<close>: reading the attribute
  gives a query object, not a list. The object stands for the rows that iterating it
  would load.
\<close>

datatype 'a appender_query = AppenderQuery "'a list"

definition category_products :: "shop_db \<Rightarrow> category \<Rightarrow> product appender_query" where
  "category_products db c =
     AppenderQuery (filter (\<lambda>p. category_id p = category.ident c) (products db))"

fun rows :: "'a appender_query \<Rightarrow> 'a list" where
  "rows (AppenderQuery xs) = xs"

text \<open>
  Python's truth test on the query object. Its class defines neither \<open>__bool__\<close> nor
  \<open>__len__\<close>, so the test is true for every instance, whatever rows it would load.
\<close>

fun truthy_query :: "'a appender_query \<Rightarrow> bool" where
  "truthy_query (AppenderQuery xs) = True"

datatype flash =
    CannotDeleteCategoryWithProducts
  | CategoryDeleted string
  | ErrorDeletingCategory

datatype response = NotFound404 | RedirectToCategories flash

text \<open>
  \<open>delete_product_image\<close> returns at once for an empty file name, removes the file
  when it exists, and swallows every exception.
\<close>

definition delete_product_image :: "shop_db \<Rightarrow> string \<Rightarrow> shop_db" where
  "delete_product_image db filename =
     (if filename = [] then db else db\<lparr>uploads := removeAll filename (uploads db)\<rparr>)"

text \<open>
  \<open>delete_category\<close>. The \<open>except\<close> branch answers a failure of the commit, which
  the model of the tables does not have.
\<close>

definition delete_category :: "shop_db \<Rightarrow> int \<Rightarrow> response \<times> shop_db" where
  "delete_category db cid =
     (case find (\<lambda>c. category.ident c = cid) (categories db) of
        None \<Rightarrow> (NotFound404, db)
      | Some c \<Rightarrow>
          if truthy_query (category_products db c)
          then (RedirectToCategories CannotDeleteCategoryWithProducts, db)
          else
            (let db1 = (if truthy_str (image_filename c)
                        then delete_product_image db (the (image_filename c))
                        else db);
                 category_name = name c
             in (RedirectToCategories (CategoryDeleted category_name),
                 db1\<lparr>categories := remove1 c (categories db1)\<rparr>)))"

section \<open>Concrete data used in the examples\<close>

definition t0 :: datetime where
  "t0 = \<lparr>year = 2024, month = 1, day = 15, hour = 10, minute = 30, second = 0,
         microsecond = 123456\<rparr>"

definition clock0 :: clock where
  "clock0 k = t0\<lparr>microsecond := 123456 + k\<rparr>"

definition widget :: product where
  "widget = \<lparr>product.ident = 1, product.price = 100, sale_price = None,
             stock_quantity = 10, category_id = 1, product.is_active = True,
             product.updated_at = None\<rparr>"

definition widget_table :: product_table where
  "widget_table = Map.empty(1 \<mapsto> widget)"

definition empty_cart :: cart where
  "empty_cart = \<lparr>cart.ident = 7, cart.items = [], cart.updated_at = None\<rparr>"

definition line2 :: cart_item where
  "line2 = \<lparr>cart_id = 7, cart_item.product_id = 1, cart_item.quantity = 2, cart_item.price = 100,
            cart_item.updated_at = Some (clock0 2)\<rparr>"

definition cart2 :: cart where
  "cart2 = \<lparr>cart.ident = 7, cart.items = [line2], cart.updated_at = Some (clock0 0)\<rparr>"

definition cart5 :: cart where
  "cart5 = \<lparr>cart.ident = 7,
             cart.items = [line2\<lparr>cart_item.quantity := 5, cart_item.updated_at := Some (clock0 0)\<rparr>],
             cart.updated_at = Some (clock0 1)\<rparr>"

definition line5 :: cart_item where
  "line5 = line2\<lparr>cart_item.quantity := 5, cart_item.updated_at := Some (clock0 0)\<rparr>"

definition sale_table :: product_table where
  "sale_table = Map.empty(1 \<mapsto> widget\<lparr>sale_price := Some 80\<rparr>)"

definition order0 :: order where
  "order0 = \<lparr>status = PENDING, subtotal_amount = PyInt 0, tax_amount = PyInt 0,
             shipping_amount = PyInt 0, discount_amount = PyInt 0, total_amount = PyInt 0,
             order_notes = None,
             order.items = [\<lparr>order_id = 1, order_item.product_id = 1,
                              order_item.quantity = 3,
                              order_item.price = PyDecimal (1999 / 100)\<rparr>],
             order.updated_at = None, confirmed_at = None, shipped_at = None,
             delivered_at = None\<rparr>"


definition neg_table :: product_table where
  "neg_table = Map.empty(1 \<mapsto> widget\<lparr>stock_quantity := - 5\<rparr>)"

definition note_line0 :: string where
  "note_line0 =
     ''2024-01-15 10:30:00.123458: Status changed from pending to confirmed. Payment received''"

definition check0 :: hash_check where
  "check0 pwhash password = (pwhash = ''hash:'' @ password)"

definition alice :: user where
  "alice = \<lparr>user.ident = 1, username = ''alice'', email = ''alice@example.com'',
            password_hash = ''hash:secret'', user.is_active = True, last_login = None\<rparr>"

definition bob :: user where
  "bob = \<lparr>user.ident = 2, username = ''bob'', email = ''bob@example.com'',
          password_hash = ''hash:hunter2'', user.is_active = False, last_login = None\<rparr>"

definition carol :: user where
  "carol = \<lparr>user.ident = 3, username = ''alice@example.com'', email = ''carol@example.com'',
            password_hash = ''hash:other'', user.is_active = True, last_login = None\<rparr>"

definition users0 :: "user list" where
  "users0 = [alice, bob]"

definition users1 :: "user list" where
  "users1 = [carol, alice]"

definition users2 :: "user list" where
  "users2 = [alice, carol]"

definition toys :: category where
  "toys = \<lparr>category.ident = 2, name = ''Toys'', image_filename = None\<rparr>"

definition db0 :: shop_db where
  "db0 = \<lparr>categories = [\<lparr>category.ident = 1, name = ''Tools'', image_filename = None\<rparr>, toys],
          products = [widget], uploads = []\<rparr>"

section \<open>Pricing\<close>

text \<open>
  Claim C1, as stated: the display price is the sale price only when a sale price is
  present and lower than the base price. The method does not compare the two prices:
  a product with base price 100 and sale price 150 is displayed at 150.
\<close>

theorem get_display_price_not_lower_counterexample:
  "get_display_price (widget\<lparr>product.sale_price := Some 150\<rparr>) = 150 \<and>
   get_effective_price (widget\<lparr>product.sale_price := Some 150\<rparr>) = 150 \<and>
   product.price (widget\<lparr>product.sale_price := Some 150\<rparr>) = 100 \<and>
   \<not> is_on_sale (widget\<lparr>product.sale_price := Some 150\<rparr>)"
  by (simp add: get_display_price_def get_effective_price_def truthy_amount_def
      is_on_sale_def widget_def)

text \<open>
  Claim C1, amended: the display price (and the effective price, its alias) is the sale
  price whenever a sale price is present and not zero, whatever the base price is, and
  the base price otherwise. So it is the sale price when that is present, not zero and
  lower than the base price, and the base price when no sale price is set.
\<close>

theorem get_display_price_sale_if_set:
  "get_effective_price p = get_display_price p \<and>
   get_display_price p =
     (case sale_price p of
        None \<Rightarrow> product.price p
      | Some s \<Rightarrow> if s = 0 then product.price p else s) \<and>
   (\<forall>s. sale_price p = Some s \<and> s \<noteq> 0 \<and> s < product.price p \<longrightarrow> get_display_price p = s) \<and>
   (sale_price p = None \<longrightarrow> get_display_price p = product.price p)"
  by (auto simp: get_display_price_def get_effective_price_def truthy_amount_def
      split: option.splits)

theorem get_display_price_sale_if_set_witness:
  "sale_price (widget\<lparr>product.sale_price := Some 80\<rparr>) = Some 80 \<and> (80::amount) \<noteq> 0 \<and>
   80 < product.price (widget\<lparr>product.sale_price := Some 80\<rparr>) \<and>
   get_display_price (widget\<lparr>product.sale_price := Some 80\<rparr>) = 80 \<and>
   sale_price widget = None \<and> get_display_price widget = product.price widget \<and>
   get_display_price widget = 100"
  using get_display_price_sale_if_set [of "widget\<lparr>product.sale_price := Some 80\<rparr>"]
    get_display_price_sale_if_set [of widget]
  by (simp add: widget_def)

section \<open>Stock\<close>

text \<open>
  Claim C4: \<open>reserve_stock\<close> raises when the requested quantity is not positive or
  exceeds the stock, \<open>update_stock\<close> raises when the new quantity is negative, and a
  call that raises leaves the product as it was. Hence a stock that is not negative
  stays so under \<open>reserve_stock\<close>, \<open>release_stock\<close> and \<open>update_stock\<close>.
\<close>

theorem stock_never_negative:
  "(qty \<le> 0 \<longrightarrow> reserve_stock utcnow p qty = (Inl QuantityMustBePositive, p)) \<and>
   (0 < qty \<and> stock_quantity p < qty \<longrightarrow>
      reserve_stock utcnow p qty =
        (Inl (InsufficientStockRequested (stock_quantity p) qty), p)) \<and>
   (new_quantity < 0 \<longrightarrow> update_stock utcnow p new_quantity = (Inl StockCannotBeNegative, p)) \<and>
   (0 \<le> stock_quantity p \<longrightarrow>
      0 \<le> stock_quantity (snd (reserve_stock utcnow p qty)) \<and>
      0 \<le> stock_quantity (snd (release_stock utcnow p qty)) \<and>
      0 \<le> stock_quantity (snd (update_stock utcnow p new_quantity)))"
  by (simp add: reserve_stock_def release_stock_def update_stock_def)

theorem stock_never_negative_witness:
  "(0::int) \<le> 0 \<and>
   reserve_stock clock0 widget 0 = (Inl QuantityMustBePositive, widget) \<and>
   (0::int) < 20 \<and> stock_quantity widget < 20 \<and>
   reserve_stock clock0 widget 20 = (Inl (InsufficientStockRequested 10 20), widget) \<and>
   (-5::int) < 0 \<and>
   update_stock clock0 widget (-5) = (Inl StockCannotBeNegative, widget) \<and>
   0 \<le> stock_quantity widget \<and>
   stock_quantity (snd (reserve_stock clock0 widget 20)) = 10 \<and>
   stock_quantity (snd (update_stock clock0 widget (-5))) = 10 \<and>
   0 \<le> stock_quantity (snd (release_stock clock0 widget 20))"
  using stock_never_negative [of 20 clock0 widget "-5"]
    stock_never_negative [of 0 clock0 widget "-5"]
  by (simp add: widget_def)

section \<open>Lists of rows\<close>

lemma map_mutate_first:
  "(\<And>x. g (f x) = g x) \<Longrightarrow> map g (mutate_first P f xs) = map g xs"
  by (induction xs) auto

lemma length_mutate_first: "length (mutate_first P f xs) = length xs"
  by (induction xs) auto

lemma find_mutate_first:
  "(\<And>x. P (f x) = P x) \<Longrightarrow> find P (mutate_first P f xs) = map_option f (find P xs)"
  by (induction xs) auto

lemma filter_mutate_first:
  "(\<And>x. g (f x) = g x) \<Longrightarrow> distinct (map g xs) \<Longrightarrow>
   find (\<lambda>i. g i = k) xs = Some x \<Longrightarrow>
   filter (\<lambda>i. g i = k) (mutate_first (\<lambda>i. g i = k) f xs) = [f x]"
proof (induction xs)
  case Nil
  then show ?case by simp
next
  case (Cons a xs)
  show ?case
  proof (cases "g a = k")
    case True
    with Cons.prems have "x = a" and "\<forall>y\<in>set xs. g y \<noteq> k" by (auto simp: image_iff)
    then show ?thesis using True Cons.prems(1) by (simp add: filter_empty_conv)
  next
    case False
    with Cons show ?thesis by simp
  qed
qed

lemma distinct_map_remove1:
  "distinct (map g xs) \<Longrightarrow> distinct (map g (remove1 x xs))"
proof (induction xs)
  case Nil
  then show ?case by simp
next
  case (Cons a xs)
  have "set (remove1 x xs) \<subseteq> set xs" by (rule set_remove1_subset)
  with Cons show ?case by auto
qed

lemma find_remove1_None:
  "distinct (map g xs) \<Longrightarrow> find (\<lambda>i. g i = k) xs = Some x \<Longrightarrow>
   find (\<lambda>i. g i = k) (remove1 x xs) = None"
proof (induction xs)
  case Nil
  then show ?case by simp
next
  case (Cons a xs)
  show ?case
  proof (cases "g a = k")
    case True
    with Cons.prems have "x = a" and "\<forall>y\<in>set xs. g y \<noteq> k" by (auto simp: image_iff)
    then show ?thesis by (simp add: find_None_iff)
  next
    case False
    with Cons.prems have "x \<noteq> a" by (auto dest: find_Some_iff[THEN iffD1])
    with False Cons show ?thesis by simp
  qed
qed

lemma length_remove1_find:
  "find P xs = Some x \<Longrightarrow> length (remove1 x xs) + 1 = length xs"
proof -
  assume "find P xs = Some x"
  then have "x \<in> set xs" by (auto simp: find_Some_iff)
  then show ?thesis by (simp add: length_remove1) (cases xs; simp)
qed

lemma find_snoc:
  "find P (xs @ [y]) = (case find P xs of Some x \<Rightarrow> Some x | None \<Rightarrow> if P y then Some y else None)"
  by (induction xs) auto

section \<open>Cart operations\<close>

lemmas example_defs =
  widget_table_def sale_table_def widget_def empty_cart_def line2_def line5_def cart2_def cart5_def

lemmas cart_op_defs =
  add_item_def update_item_quantity_def remove_item_def clear_cart_def query_active_def
  query_get_def get_item_by_product_def held_quantity_def unique_cart_product_def
  get_effective_price_def get_display_price_def truthy_amount_def get_total_price_def
  Let_def

lemma add_item_cases:
  "add_item u ps c pid q = (Inr it, c') \<Longrightarrow>
   \<exists>p. ps pid = Some p \<and> product.is_active p \<and> q + held_quantity c pid \<le> stock_quantity p \<and>
     (case get_item_by_product c pid of
        Some item \<Rightarrow>
          it = item\<lparr>cart_item.quantity := cart_item.quantity item + q,
                    cart_item.updated_at := Some (u 0)\<rparr> \<and>
          c' = c\<lparr>cart.items := mutate_first (\<lambda>i. cart_item.product_id i = pid)
                    (\<lambda>i. i\<lparr>cart_item.quantity := cart_item.quantity i + q,
                           cart_item.updated_at := Some (u 0)\<rparr>) (cart.items c),
                 cart.updated_at := Some (u 1)\<rparr>
      | None \<Rightarrow>
          it = \<lparr>cart_id = cart.ident c, cart_item.product_id = pid, cart_item.quantity = q,
                cart_item.price = get_effective_price p,
                cart_item.updated_at = Some (u 2)\<rparr> \<and>
          c' = c\<lparr>cart.items := cart.items c @ [it], cart.updated_at := Some (u 0)\<rparr>)"
  by (auto simp: add_item_def query_active_def held_quantity_def Let_def
      split: option.splits if_splits)

lemma add_item_unique:
  "unique_cart_product c \<Longrightarrow> unique_cart_product (snd (add_item u ps c pid q))"
  by (auto simp: add_item_def query_active_def unique_cart_product_def Let_def
      get_item_by_product_def map_mutate_first find_None_iff
      split: option.splits)

lemma remove_item_unique:
  "unique_cart_product c \<Longrightarrow> unique_cart_product (remove_item u c pid)"
  by (auto simp: remove_item_def unique_cart_product_def distinct_map_remove1
      split: option.splits)

lemma update_item_quantity_unique:
  "unique_cart_product c \<Longrightarrow> unique_cart_product (snd (update_item_quantity u ps c pid q))"
  using remove_item_unique [of c u pid]
  by (auto simp: update_item_quantity_def unique_cart_product_def map_mutate_first
      split: option.splits)

lemma clear_cart_unique: "unique_cart_product (clear_cart u c)"
  by (simp add: clear_cart_def unique_cart_product_def)

lemma add_item_line:
  assumes "unique_cart_product c" and "add_item u ps c pid q = (Inr it, c')"
  shows "filter (\<lambda>i. cart_item.product_id i = pid) (cart.items c') = [it]"
    and "cart_item.quantity it = held_quantity c pid + q"
    and "get_item_by_product c' pid = Some it"
proof -
  from add_item_cases [OF assms(2)] obtain p where
    p: "case get_item_by_product c pid of
        Some item \<Rightarrow>
          it = item\<lparr>cart_item.quantity := cart_item.quantity item + q,
                    cart_item.updated_at := Some (u 0)\<rparr> \<and>
          c' = c\<lparr>cart.items := mutate_first (\<lambda>i. cart_item.product_id i = pid)
                    (\<lambda>i. i\<lparr>cart_item.quantity := cart_item.quantity i + q,
                           cart_item.updated_at := Some (u 0)\<rparr>) (cart.items c),
                 cart.updated_at := Some (u 1)\<rparr>
      | None \<Rightarrow>
          it = \<lparr>cart_id = cart.ident c, cart_item.product_id = pid, cart_item.quantity = q,
                cart_item.price = get_effective_price p,
                cart_item.updated_at = Some (u 2)\<rparr> \<and>
          c' = c\<lparr>cart.items := cart.items c @ [it], cart.updated_at := Some (u 0)\<rparr>"
    by blast
  show "filter (\<lambda>i. cart_item.product_id i = pid) (cart.items c') = [it]"
  proof (cases "get_item_by_product c pid")
    case None
    then have "\<forall>i\<in>set (cart.items c). cart_item.product_id i \<noteq> pid"
      by (simp add: get_item_by_product_def find_None_iff)
    then have "filter (\<lambda>i. cart_item.product_id i = pid) (cart.items c) = []"
      by (simp add: filter_empty_conv)
    with p None show ?thesis by simp
  next
    case (Some item)
    with p assms(1) show ?thesis
      using filter_mutate_first [of cart_item.product_id _ "cart.items c" pid item]
      by (simp add: get_item_by_product_def unique_cart_product_def)
  qed
  show "cart_item.quantity it = held_quantity c pid + q"
    using p by (simp add: held_quantity_def split: option.splits)
  show "get_item_by_product c' pid = Some it"
  proof (cases "get_item_by_product c pid")
    case None
    with p show ?thesis
      by (simp add: get_item_by_product_def find_snoc)
  next
    case (Some item)
    with p show ?thesis
      by (simp add: get_item_by_product_def find_mutate_first)
  qed
qed

text \<open>
  Claim C6: the constraint of one line per product is kept by every cart operation, and
  adding the same product twice gives no second line: when both calls succeed, the cart
  holds one line of the product, the one the second call returned, whose quantity is
  that after the first call plus the amount added.
\<close>

theorem add_item_same_product_one_line:
  assumes "unique_cart_product c"
  shows "unique_cart_product (snd (add_item u ps c pid q)) \<and>
         unique_cart_product (snd (update_item_quantity u ps c pid q)) \<and>
         unique_cart_product (remove_item u c pid) \<and>
         unique_cart_product (clear_cart u c) \<and>
         (\<forall>it1 c1 it2 c2.
            add_item u ps c pid q1 = (Inr it1, c1) \<and>
            add_item u' ps' c1 pid q2 = (Inr it2, c2) \<longrightarrow>
              filter (\<lambda>i. cart_item.product_id i = pid) (cart.items c2) = [it2] \<and>
              cart_item.quantity it2 = cart_item.quantity it1 + q2 \<and>
              cart_item.quantity it2 = held_quantity c pid + q1 + q2 \<and>
              length (cart.items c2) = length (cart.items c1))"
proof -
  have twice: "filter (\<lambda>i. cart_item.product_id i = pid) (cart.items c2) = [it2] \<and>
              cart_item.quantity it2 = cart_item.quantity it1 + q2 \<and>
              cart_item.quantity it2 = held_quantity c pid + q1 + q2 \<and>
              length (cart.items c2) = length (cart.items c1)"
    if a1: "add_item u ps c pid q1 = (Inr it1, c1)"
      and a2: "add_item u' ps' c1 pid q2 = (Inr it2, c2)" for it1 c1 it2 c2
  proof -
    have u1: "unique_cart_product c1"
      using add_item_unique [OF assms, of u ps pid q1] a1 by simp
    have g1: "get_item_by_product c1 pid = Some it1"
      by (rule add_item_line(3) [OF assms a1])
    have q1: "cart_item.quantity it1 = held_quantity c pid + q1"
      by (rule add_item_line(2) [OF assms a1])
    have h1: "held_quantity c1 pid = cart_item.quantity it1"
      using g1 by (simp add: held_quantity_def)
    have q2: "cart_item.quantity it2 = cart_item.quantity it1 + q2"
      using add_item_line(2) [OF u1 a2] h1 by simp
    have len: "length (cart.items c2) = length (cart.items c1)"
      using add_item_cases [OF a2] g1 by (auto simp: length_mutate_first)
    show ?thesis
      using add_item_line(1) [OF u1 a2] q1 q2 len by simp
  qed
  show ?thesis
    using add_item_unique [OF assms] update_item_quantity_unique [OF assms]
      remove_item_unique [OF assms] clear_cart_unique twice
    by blast
qed

theorem add_item_same_product_one_line_witness:
  "unique_cart_product empty_cart \<and>
   add_item clock0 widget_table empty_cart 1 2 = (Inr line2, cart2) \<and>
   add_item clock0 widget_table cart2 1 3 = (Inr line5, cart5) \<and>
   cart.items cart5 = [line5] \<and> cart_item.quantity line5 = 5 \<and>
   filter (\<lambda>i. cart_item.product_id i = 1) (cart.items cart5) = [line5] \<and>
   unique_cart_product cart5"
proof -
  have h0: "unique_cart_product empty_cart"
    by (simp add: unique_cart_product_def empty_cart_def)
  have h1: "add_item clock0 widget_table empty_cart 1 2 = (Inr line2, cart2)"
    by (simp add: cart_op_defs example_defs)
  have h2: "add_item clock0 widget_table cart2 1 3 = (Inr line5, cart5)"
    by (simp add: cart_op_defs example_defs)
  have h3: "cart.items cart5 = [line5] \<and> cart_item.quantity line5 = 5"
    by (simp add: example_defs)
  from add_item_same_product_one_line [OF h0, of clock0 widget_table 1 2 2 clock0 widget_table 3]
    h1 h2
  have "filter (\<lambda>i. cart_item.product_id i = 1) (cart.items cart5) = [line5]"
    and "unique_cart_product cart2"
    by simp_all
  moreover have "unique_cart_product cart5"
    using add_item_same_product_one_line [OF \<open>unique_cart_product cart2\<close>,
        of clock0 widget_table 1 3] h2 by simp
  ultimately show ?thesis using h0 h1 h2 h3 by simp
qed

text \<open>
  Claim C7, as stated: whenever the new quantity of an update exceeds the stock,
  \<open>update_item_quantity\<close> raises and the cart is unchanged. The method tests
  \<open>quantity <= 0\<close> before it reads the stock, and no column constraint keeps a stock
  from being negative: with a stock of -5, the request -3 exceeds the stock, and the
  line is removed without an error.
\<close>

theorem update_item_quantity_negative_stock_counterexample:
  "neg_table 1 = Some (widget\<lparr>stock_quantity := - 5\<rparr>) \<and>
   stock_quantity (widget\<lparr>stock_quantity := - 5\<rparr>) < - 3 \<and>
   get_item_by_product cart2 1 = Some line2 \<and>
   cart_item.quantity line2 = 2 \<and>
   update_item_quantity clock0 neg_table cart2 1 (- 3) = (Inr (), cart2\<lparr>cart.items := []\<rparr>)"
  by (simp add: cart_op_defs example_defs neg_table_def)

text \<open>
  Claim C7, amended: \<open>add_item\<close> raises and leaves the cart unchanged whenever the
  quantity held plus the addition exceeds the stock of the product, and
  \<open>update_item_quantity\<close> does so whenever the new quantity is positive and exceeds
  the stock. A new quantity of zero or less on a line of the cart is a removal, whatever
  the stock is.
\<close>

theorem over_stock_rejected:
  "(ps pid = Some p \<and> stock_quantity p < q + held_quantity c pid \<longrightarrow>
      add_item u ps c pid q =
        (Inl (if product.is_active p then InsufficientStock (stock_quantity p)
              else ProductNotFoundOrInactive), c)) \<and>
   (ps pid = Some p \<and> 0 < q \<and> stock_quantity p < q \<longrightarrow>
      update_item_quantity u ps c pid q =
        (Inl (if get_item_by_product c pid = None then ItemNotFoundInCart
              else InsufficientStock (stock_quantity p)), c)) \<and>
   (get_item_by_product c pid \<noteq> None \<and> q \<le> 0 \<longrightarrow>
      update_item_quantity u ps c pid q = (Inr (), remove_item u c pid))"
  by (auto simp: add_item_def update_item_quantity_def query_active_def query_get_def
      held_quantity_def Let_def split: option.splits)

theorem over_stock_rejected_witness:
  "widget_table 1 = Some widget \<and> stock_quantity widget < 9 + held_quantity cart2 1 \<and>
   add_item clock0 widget_table cart2 1 9 = (Inl (InsufficientStock 10), cart2) \<and>
   (0::int) < 11 \<and> stock_quantity widget < 11 \<and>
   update_item_quantity clock0 widget_table cart2 1 11 = (Inl (InsufficientStock 10), cart2) \<and>
   neg_table 1 = Some (widget\<lparr>stock_quantity := - 5\<rparr>) \<and>
   stock_quantity (widget\<lparr>stock_quantity := - 5\<rparr>) < 1 \<and>
   update_item_quantity clock0 neg_table cart2 1 1 = (Inl (InsufficientStock (- 5)), cart2) \<and>
   get_item_by_product cart2 1 \<noteq> None \<and> (- 3::int) \<le> 0 \<and>
   update_item_quantity clock0 neg_table cart2 1 (- 3) = (Inr (), remove_item clock0 cart2 1)"
proof -
  have h: "widget_table 1 = Some widget" "stock_quantity widget < 9 + held_quantity cart2 1"
    "stock_quantity widget < 11"
    "product.is_active widget" "get_item_by_product cart2 1 \<noteq> None"
    "stock_quantity widget = 10"
    "neg_table 1 = Some (widget\<lparr>stock_quantity := - 5\<rparr>)"
    "stock_quantity (widget\<lparr>stock_quantity := - 5\<rparr>) = - 5"
    by (simp_all add: cart_op_defs example_defs neg_table_def)
  show ?thesis
    using over_stock_rejected [of widget_table 1 widget 9 cart2 clock0]
      over_stock_rejected [of widget_table 1 widget 11 cart2 clock0]
      over_stock_rejected [of neg_table 1 "widget\<lparr>stock_quantity := - 5\<rparr>" 1 cart2 clock0]
      over_stock_rejected [of neg_table 1 "widget\<lparr>stock_quantity := - 5\<rparr>" "- 3" cart2 clock0]
      h
    by simp
qed

text \<open>
  Claim C9: on a cart with a line for the product, \<open>update_item_quantity\<close> with a
  quantity that is zero or negative removes the line and returns normally, and its
  result is the same for every product table: the stock is not read.
\<close>

theorem update_nonpositive_removes:
  "get_item_by_product c pid = Some item \<and> q \<le> 0 \<longrightarrow>
     update_item_quantity u ps c pid q =
       (Inr (), c\<lparr>cart.items := remove1 item (cart.items c), cart.updated_at := Some (u 0)\<rparr>) \<and>
     update_item_quantity u ps' c pid q = update_item_quantity u ps c pid q \<and>
     length (cart.items (snd (update_item_quantity u ps c pid q))) + 1 = length (cart.items c) \<and>
     (unique_cart_product c \<longrightarrow>
        get_item_by_product (snd (update_item_quantity u ps c pid q)) pid = None)"
  using length_remove1_find [of "\<lambda>i. cart_item.product_id i = pid" "cart.items c" item]
    find_remove1_None [of cart_item.product_id "cart.items c" pid item]
  by (simp add: update_item_quantity_def remove_item_def get_item_by_product_def
      unique_cart_product_def)

theorem update_nonpositive_removes_witness:
  "get_item_by_product cart2 1 = Some line2 \<and> (-3::int) \<le> 0 \<and>
   unique_cart_product cart2 \<and>
   update_item_quantity clock0 widget_table cart2 1 (-3) =
     (Inr (), cart2\<lparr>cart.items := []\<rparr>) \<and>
   update_item_quantity clock0 Map.empty cart2 1 (-3) =
     update_item_quantity clock0 widget_table cart2 1 (-3) \<and>
   get_item_by_product (snd (update_item_quantity clock0 widget_table cart2 1 (-3))) 1 = None"
proof -
  have h: "get_item_by_product cart2 1 = Some line2" "unique_cart_product cart2"
    "cart2\<lparr>cart.items := remove1 line2 (cart.items cart2), cart.updated_at := Some (clock0 0)\<rparr>
       = cart2\<lparr>cart.items := []\<rparr>"
    by (simp_all add: cart_op_defs example_defs)
  show ?thesis
    using update_nonpositive_removes [of cart2 1 line2 "-3" clock0 widget_table Map.empty] h
    by (simp add: get_item_by_product_def)
qed

text \<open>
  Claim C10: when \<open>add_item\<close> increments an existing line, the unit price stored in
  the line stays as it was, whatever the product's effective price is now; only a new
  line takes the product's current effective price.
\<close>

theorem add_item_keeps_price_snapshot:
  "(get_item_by_product c pid = Some item \<and> add_item u ps c pid q = (Inr item', c') \<longrightarrow>
      cart_item.price item' = cart_item.price item \<and>
      cart_item.quantity item' = cart_item.quantity item + q \<and>
      get_item_by_product c' pid = Some item' \<and>
      get_total_price item' = cart_item.price item * of_int (cart_item.quantity item + q)) \<and>
   (get_item_by_product c pid = None \<and> add_item u ps c pid q = (Inr item', c') \<longrightarrow>
      (\<exists>p. ps pid = Some p \<and> cart_item.price item' = get_effective_price p) \<and>
      cart.items c' = cart.items c @ [item'])"
proof (intro conjI impI)
  assume a: "get_item_by_product c pid = Some item \<and> add_item u ps c pid q = (Inr item', c')"
  from add_item_cases [of u ps c pid q item' c'] a
  have i: "item' = item\<lparr>cart_item.quantity := cart_item.quantity item + q,
                    cart_item.updated_at := Some (u 0)\<rparr>"
    and c: "c' = c\<lparr>cart.items := mutate_first (\<lambda>i. cart_item.product_id i = pid)
                    (\<lambda>i. i\<lparr>cart_item.quantity := cart_item.quantity i + q,
                           cart_item.updated_at := Some (u 0)\<rparr>) (cart.items c),
                 cart.updated_at := Some (u 1)\<rparr>"
    by auto
  show "cart_item.price item' = cart_item.price item" using i by simp
  show "cart_item.quantity item' = cart_item.quantity item + q" using i by simp
  show "get_item_by_product c' pid = Some item'"
    using a i c by (simp add: get_item_by_product_def find_mutate_first)
  show "get_total_price item' = cart_item.price item * of_int (cart_item.quantity item + q)"
    using i by (simp add: get_total_price_def)
next
  assume a: "get_item_by_product c pid = None \<and> add_item u ps c pid q = (Inr item', c')"
  from add_item_cases [of u ps c pid q item' c'] a
  show "\<exists>p. ps pid = Some p \<and> cart_item.price item' = get_effective_price p"
    by auto
  from add_item_cases [of u ps c pid q item' c'] a
  show "cart.items c' = cart.items c @ [item']"
    by auto
qed

theorem add_item_keeps_price_snapshot_witness:
  "get_item_by_product cart2 1 = Some line2 \<and>
   add_item clock0 sale_table cart2 1 3 = (Inr line5, cart5) \<and>
   get_effective_price (the (sale_table 1)) = 80 \<and>
   cart_item.price line5 = 100 \<and> get_total_price line5 = 500 \<and>
   get_item_by_product empty_cart 1 = None \<and>
   add_item clock0 sale_table empty_cart 1 2 =
     (Inr (line2\<lparr>cart_item.price := 80\<rparr>),
      cart2\<lparr>cart.items := [line2\<lparr>cart_item.price := 80\<rparr>]\<rparr>) \<and>
   cart_item.price (line2\<lparr>cart_item.price := 80\<rparr>) = get_effective_price (the (sale_table 1))"
proof -
  have h: "get_item_by_product cart2 1 = Some line2"
    "add_item clock0 sale_table cart2 1 3 = (Inr line5, cart5)"
    "get_effective_price (the (sale_table 1)) = 80"
    "get_item_by_product empty_cart 1 = None"
    "add_item clock0 sale_table empty_cart 1 2 =
     (Inr (line2\<lparr>cart_item.price := 80\<rparr>),
      cart2\<lparr>cart.items := [line2\<lparr>cart_item.price := 80\<rparr>]\<rparr>)"
    "cart_item.price line2 = 100" "cart_item.quantity line2 = 2"
    by (simp_all add: cart_op_defs example_defs)
  show ?thesis
    using add_item_keeps_price_snapshot [of cart2 1 line2 clock0 sale_table 3 line5 cart5]
      add_item_keeps_price_snapshot [of empty_cart 1 line2 clock0 sale_table 2
        "line2\<lparr>cart_item.price := 80\<rparr>" "cart2\<lparr>cart.items := [line2\<lparr>cart_item.price := 80\<rparr>]\<rparr>"]
      h
    by simp
qed

section \<open>Doubles\<close>

text \<open>
  What \<open>round_double\<close> computes: \<open>floor_log2\<close> brackets a positive number between
  two powers of two, and the double returned differs from the number by at most half a
  unit of the last of 53 bits.
\<close>

lemma bit_length_bounds:
  "0 < n \<Longrightarrow> 2 ^ (bit_length n - 1) \<le> n \<and> n < 2 ^ bit_length n"
proof (induction n rule: bit_length.induct)
  case (1 n)
  show ?case
  proof (cases "n div 2 = 0")
    case True
    with 1 have "n = 1" by (auto simp: div_eq_0_iff)
    then show ?thesis by (simp add: bit_length.simps)
  next
    case False
    then have pos: "0 < n div 2" by simp
    from 1 have n0: "n \<noteq> 0" by simp
    from "1.IH" [OF n0 pos] have
      lo: "2 ^ (bit_length (n div 2) - 1) \<le> n div 2" and hi: "n div 2 < 2 ^ bit_length (n div 2)"
      by simp_all
    have bl: "bit_length n = Suc (bit_length (n div 2))"
      using n0 by (subst bit_length.simps) simp
    have blpos: "0 < bit_length (n div 2)"
      using pos by (subst bit_length.simps) simp
    have "(2::nat) ^ (bit_length n - 1) = 2 * 2 ^ (bit_length (n div 2) - 1)"
      using bl blpos by (cases "bit_length (n div 2)") simp_all
    moreover have "2 * (n div 2) \<le> n" by simp
    ultimately have a: "2 ^ (bit_length n - 1) \<le> n" using lo by linarith
    have "n < 2 * (n div 2) + 2" by linarith
    moreover have "n div 2 + 1 \<le> 2 ^ bit_length (n div 2)" using hi by simp
    ultimately have b: "n < 2 ^ bit_length n" using bl by simp
    from a b show ?thesis by simp
  qed
qed

lemma round_half_even_error: "\<bar>of_int (round_half_even y) - y\<bar> \<le> 1 / 2"
proof -
  have f: "of_int \<lfloor>y\<rfloor> \<le> y" "y < of_int \<lfloor>y\<rfloor> + 1" by linarith+
  show ?thesis
    unfolding round_half_even_def Let_def
    using f by (simp add: abs_if) linarith
qed

lemma pow2_pos: "0 < pow2 e"
  by (simp add: pow2_def)

lemma round_double_error:
  "\<bar>round_double x - x\<bar> \<le> pow2 (floor_log2 \<bar>x\<bar> - 52) / 2"
proof (cases "x = 0")
  case True
  then show ?thesis using pow2_pos [of "floor_log2 0 - 52"] by (simp add: round_double_def)
next
  case False
  let ?p = "pow2 (floor_log2 \<bar>x\<bar> - 52)"
  have p: "0 < ?p" by (rule pow2_pos)
  have "round_double x - x = (of_int (round_half_even (x / ?p)) - x / ?p) * ?p"
    using False p by (simp add: round_double_def Let_def field_simps)
  then have "\<bar>round_double x - x\<bar> = \<bar>of_int (round_half_even (x / ?p)) - x / ?p\<bar> * ?p"
    using p by (simp add: abs_mult)
  also have "\<dots> \<le> (1 / 2) * ?p"
    using round_half_even_error [of "x / ?p"] p by (intro mult_right_mono) simp_all
  finally show ?thesis by simp
qed

lemma floor_log2_bracket:
  assumes "0 < x"
  shows "pow2 (floor_log2 x) \<le> x \<and> x < pow2 (floor_log2 x + 1)"
proof (cases "1 \<le> x")
  case True
  define n where "n = nat \<lfloor>x\<rfloor>"
  have fl: "1 \<le> \<lfloor>x\<rfloor>" using True by simp
  then have n: "0 < n" "of_nat n = (of_int \<lfloor>x\<rfloor> :: rat)" by (simp_all add: n_def)
  from bit_length_bounds [OF n(1)] have
    lo: "2 ^ (bit_length n - 1) \<le> n" and hi: "n < 2 ^ bit_length n" by simp_all
  have bpos: "0 < bit_length n" using n(1) by (subst bit_length.simps) simp
  have e: "floor_log2 x = int (bit_length n) - 1"
    using True by (simp add: floor_log2_def n_def)
  have p1: "pow2 (floor_log2 x) = 2 ^ (bit_length n - 1)"
    using bpos by (simp add: e pow2_def nat_diff_distrib')
  have p2: "pow2 (floor_log2 x + 1) = 2 ^ bit_length n"
    by (simp add: e pow2_def)
  have "(2::rat) ^ (bit_length n - 1) \<le> of_nat n"
    using lo by (metis of_nat_le_iff of_nat_numeral of_nat_power)
  also have "\<dots> \<le> x" using n(2) by simp
  finally have a: "pow2 (floor_log2 x) \<le> x" using p1 by simp
  have "x < of_nat n + 1" using n(2) by simp linarith
  also have "\<dots> = of_nat (n + 1)" by simp
  also have "\<dots> \<le> of_nat (2 ^ bit_length n)"
    using hi by (simp only: of_nat_le_iff, simp?)
  finally have b: "x < pow2 (floor_log2 x + 1)" using p2 by simp
  from a b show ?thesis by simp
next
  case False
  define y where "y = 1 / x"
  define c where "c = nat (\<lceil>y\<rceil> - 1)"
  have y1: "1 < y" using assms False by (simp add: y_def)
  then have ce: "2 \<le> \<lceil>y\<rceil>" by (simp add: le_ceiling_iff)
  then have c: "0 < c" "of_nat c = (of_int \<lceil>y\<rceil> :: rat) - 1" by (simp_all add: c_def)
  from bit_length_bounds [OF c(1)] have
    lo: "2 ^ (bit_length c - 1) \<le> c" and hi: "c < 2 ^ bit_length c" by simp_all
  have bpos: "0 < bit_length c" using c(1) by (subst bit_length.simps) simp
  have e: "floor_log2 x = - int (bit_length c)"
    using False by (simp add: floor_log2_def c_def y_def)
  have p1: "pow2 (floor_log2 x) = 1 / 2 ^ bit_length c"
    using bpos by (simp add: e pow2_def)
  have p2: "pow2 (floor_log2 x + 1) = 1 / 2 ^ (bit_length c - 1)"
    using bpos by (cases "bit_length c") (simp_all add: e pow2_def)
  have "y \<le> of_nat c + 1" using c(2) by simp
  also have "\<dots> = of_nat (c + 1)" by simp
  also have "\<dots> \<le> of_nat (2 ^ bit_length c)"
    using hi by (simp only: of_nat_le_iff, simp?)
  finally have yhi: "y \<le> 2 ^ bit_length c" by simp
  have "(2::rat) ^ (bit_length c - 1) \<le> of_nat c"
    using lo by (metis of_nat_le_iff of_nat_numeral of_nat_power)
  also have "\<dots> < y" using c(2) by simp linarith
  finally have ylo: "2 ^ (bit_length c - 1) < y" .
  have a: "pow2 (floor_log2 x) \<le> x"
    using yhi assms by (simp add: p1 y_def field_simps)
  have "x < 1 / 2 ^ (bit_length c - 1)"
    using ylo assms by (simp add: y_def field_simps)
  then have b: "x < pow2 (floor_log2 x + 1)"
    by (simp only: p2)
  from a b show ?thesis by simp
qed

section \<open>Order totals\<close>




























section \<open>Status notes\<close>

lemma isspace_digit: "c \<in> set ''0123456789'' \<Longrightarrow> \<not> isspace c"
  by (auto simp: isspace_def)

lemma digit_char_digit: "digit_char n \<in> set ''0123456789''"
proof -
  have "n mod 10 < length ''0123456789''" by simp
  then show ?thesis unfolding digit_char_def by (rule nth_mem)
qed

lemma decimal_digits: "set (decimal n) \<subseteq> set ''0123456789''"
proof (induction n rule: decimal.induct)
  case (1 n)
  show ?case
  proof (cases "n < 10")
    case True
    then have "decimal n = [digit_char n]" by (simp add: decimal.simps)
    then show ?thesis using digit_char_digit [of n] by simp
  next
    case False
    then have "decimal n = decimal (n div 10) @ [digit_char (n mod 10)]"
      by (subst decimal.simps) simp
    moreover have "set (decimal (n div 10)) \<subseteq> set ''0123456789''"
      using 1 False by blast
    ultimately show ?thesis using digit_char_digit [of "n mod 10"] by simp
  qed
qed

lemma decimal_not_Nil: "decimal n \<noteq> []"
  by (subst decimal.simps) simp

lemma zero_pad_digits: "set (zero_pad w n) \<subseteq> set ''0123456789''"
proof -
  have "set (replicate (w - length (decimal n)) (CHR ''0'')) \<subseteq> {CHR ''0''}"
    by (simp add: set_replicate_conv_if)
  moreover have "CHR ''0'' \<in> set ''0123456789''" by simp
  ultimately have "set (replicate (w - length (decimal n)) (CHR ''0'')) \<subseteq> set ''0123456789''"
    by blast
  then show ?thesis
    unfolding zero_pad_def set_append using decimal_digits [of n] by blast
qed

lemma zero_pad_not_Nil: "zero_pad w n \<noteq> []"
  by (simp add: zero_pad_def decimal_not_Nil)

lemma str_datetime_not_Nil: "str_datetime d \<noteq> []"
  by (simp add: str_datetime_def zero_pad_not_Nil)

lemma str_datetime_hd: "\<not> isspace (hd (str_datetime d))"
proof -
  have "hd (str_datetime d) = hd (zero_pad 4 (year d))"
    by (simp add: str_datetime_def zero_pad_not_Nil)
  moreover have "hd (zero_pad 4 (year d)) \<in> set (zero_pad 4 (year d))"
    by (rule hd_in_set) (rule zero_pad_not_Nil)
  ultimately have "hd (str_datetime d) \<in> set ''0123456789''"
    using zero_pad_digits [of 4 "year d"] by (simp only: subsetD)
  then show ?thesis by (rule isspace_digit)
qed

lemma strip_id: "s \<noteq> [] \<Longrightarrow> \<not> isspace (hd s) \<Longrightarrow> \<not> isspace (last s) \<Longrightarrow> strip s = s"
proof -
  assume s: "s \<noteq> []" "\<not> isspace (hd s)" "\<not> isspace (last s)"
  then have "dropWhile isspace s = s" by (simp add: dropWhile_eq_self_iff)
  moreover have "dropWhile isspace (rev s) = rev s"
    using s by (simp add: dropWhile_eq_self_iff hd_rev)
  ultimately show ?thesis by (simp add: strip_def)
qed

lemma isspace_newline: "isspace (CHR 0x0A)"
  by (simp add: isspace_def)

lemma strip_leading: "isspace c \<Longrightarrow> strip (c # s) = strip s"
  by (simp add: strip_def)

lemma status_line_ends:
  assumes "n \<noteq> []"
  shows "status_line (str_datetime d) a b n \<noteq> []"
    and "hd (status_line (str_datetime d) a b n) = hd (str_datetime d)"
    and "last (status_line (str_datetime d) a b n) = last n"
  using assms str_datetime_not_Nil [of d] by (simp_all add: status_line_def)

lemma update_status_notes:
  "order_notes (update_status u ord s note) =
     (if truthy_str note
      then Some (strip (or_empty (order_notes ord) @ [CHR 0x0A] @
                   status_line (str_datetime (note_time u s)) (status_value (status ord))
                     (status_value s) (the note)))
      else order_notes ord)"
  by (simp add: update_status_def Let_def status_line_def note_time_def)

lemma update_status_status: "status (update_status u ord s note) = s"
  by (simp add: update_status_def Let_def)

text \<open>
  Claim C3, as stated: every call of \<open>update_status\<close>, with or without a note,
  appends a line to the notes. A call without a note (or with the empty note) changes
  the status and leaves the notes as they were.
\<close>

theorem update_status_without_note_counterexample:
  "status order0 = PENDING \<and>
   status (update_status clock0 order0 CONFIRMED None) = CONFIRMED \<and>
   order_notes order0 = None \<and>
   order_notes (update_status clock0 order0 CONFIRMED None) = None \<and>
   order_notes (update_status clock0 (order0\<lparr>order_notes := Some ''Gift''\<rparr>) SHIPPED (Some [])) =
     Some ''Gift''"
  by (simp add: update_status_def Let_def truthy_str_def order0_def)

text \<open>
  Claim C3, amended: a call of \<open>update_status\<close> with a note that is not empty sets
  the notes to the old notes, a line break and the line
  \<open><timestamp>: Status changed from <old> to <new>. <note>\<close>, the whole stripped of
  white space at both ends. So when the note does not end in white space, the notes
  become that line if there were none, and the old notes followed by a line break and
  that line if the old notes do not begin with white space. A call without a note, or
  with the empty note, leaves the notes unchanged.
\<close>

theorem update_status_note_line:
  fixes u :: clock and ord :: order and s :: OrderStatus and n :: string
  defines "line \<equiv> status_line (str_datetime (note_time u s)) (status_value (status ord))
                    (status_value s) n"
  shows "(nt = None \<or> nt = Some [] \<longrightarrow>
            order_notes (update_status u ord s nt) = order_notes ord) \<and>
         (n \<noteq> [] \<longrightarrow>
            order_notes (update_status u ord s (Some n)) =
              Some (strip (or_empty (order_notes ord) @ [CHR 0x0A] @ line))) \<and>
         (n \<noteq> [] \<and> \<not> isspace (last n) \<and>
            (order_notes ord = None \<or> order_notes ord = Some []) \<longrightarrow>
            order_notes (update_status u ord s (Some n)) = Some line) \<and>
         (n \<noteq> [] \<and> \<not> isspace (last n) \<and>
            order_notes ord = Some old \<and> old \<noteq> [] \<and> \<not> isspace (hd old) \<longrightarrow>
            order_notes (update_status u ord s (Some n)) = Some (old @ [CHR 0x0A] @ line))"
proof (intro conjI impI)
  assume "nt = None \<or> nt = Some []"
  then show "order_notes (update_status u ord s nt) = order_notes ord"
    by (auto simp: update_status_notes truthy_str_def)
next
  assume "n \<noteq> []"
  then show "order_notes (update_status u ord s (Some n)) =
      Some (strip (or_empty (order_notes ord) @ [CHR 0x0A] @ line))"
    by (simp add: update_status_notes truthy_str_def line_def)
next
  assume a: "n \<noteq> [] \<and> \<not> isspace (last n) \<and>
            (order_notes ord = None \<or> order_notes ord = Some [])"
  then have e: "or_empty (order_notes ord) = []"
    by (auto simp: or_empty_def truthy_str_def)
  have l: "line \<noteq> []" "\<not> isspace (hd line)" "\<not> isspace (last line)"
    using a status_line_ends [of n "note_time u s"] str_datetime_hd [of "note_time u s"]
    by (simp_all add: line_def)
  have "strip (CHR 0x0A # line) = line"
    using strip_leading [OF isspace_newline, of line] strip_id [OF l] by simp
  with a e show "order_notes (update_status u ord s (Some n)) = Some line"
    by (simp add: update_status_notes truthy_str_def line_def)
next
  assume a: "n \<noteq> [] \<and> \<not> isspace (last n) \<and>
            order_notes ord = Some old \<and> old \<noteq> [] \<and> \<not> isspace (hd old)"
  then have e: "or_empty (order_notes ord) = old"
    by (simp add: or_empty_def truthy_str_def)
  have l: "line \<noteq> []" "last line = last n"
    using a status_line_ends [of n "note_time u s"] by (simp_all add: line_def)
  have "strip (old @ [CHR 0x0A] @ line) = old @ [CHR 0x0A] @ line"
    using a l by (intro strip_id) simp_all
  with a e show "order_notes (update_status u ord s (Some n)) = Some (old @ [CHR 0x0A] @ line)"
    by (simp add: update_status_notes truthy_str_def line_def)
qed

lemma decimal_examples:
  "decimal 2024 = ''2024''" "decimal (Suc 0) = ''1''" "decimal 15 = ''15''" "decimal 10 = ''10''"
  "decimal 30 = ''30''" "decimal 0 = ''0''" "decimal 123458 = ''123458''"
  by (simp_all add: decimal.simps digit_char_def)

lemma str_datetime_clock0: "str_datetime (clock0 2) = ''2024-01-15 10:30:00.123458''"
  by (simp add: str_datetime_def clock0_def t0_def zero_pad_def decimal_examples)

lemma note_line0_eq:
  "status_line (str_datetime (note_time clock0 CONFIRMED)) (status_value (status order0))
     (status_value CONFIRMED) ''Payment received'' = note_line0"
  by (simp add: note_time_def str_datetime_clock0 status_line_def order0_def note_line0_def)

theorem update_status_note_line_witness:
  "order_notes (update_status clock0 order0 CONFIRMED None) = order_notes order0 \<and>
   ''Payment received'' \<noteq> [] \<and> \<not> isspace (last ''Payment received'') \<and>
   order_notes order0 = None \<and>
   order_notes (update_status clock0 order0 CONFIRMED (Some ''Payment received'')) =
     Some note_line0 \<and>
   order_notes (order0\<lparr>order_notes := Some ''Gift''\<rparr>) = Some ''Gift'' \<and>
   ''Gift'' \<noteq> [] \<and> \<not> isspace (hd ''Gift'') \<and>
   order_notes (update_status clock0 (order0\<lparr>order_notes := Some ''Gift''\<rparr>) CONFIRMED
      (Some ''Payment received'')) = Some (''Gift'' @ [CHR 0x0A] @ note_line0)"
proof -
  have h: "\<not> isspace (last ''Payment received'')" "\<not> isspace (hd ''Gift'')"
    "order_notes order0 = None"
    "status (order0\<lparr>order_notes := Some ''Gift''\<rparr>) = status order0"
    "order_notes (order0\<lparr>order_notes := Some ''Gift''\<rparr>) = Some ''Gift''"
    by (simp_all add: isspace_def order0_def)
  have w0: "order_notes (update_status clock0 order0 CONFIRMED None) = order_notes order0"
    using update_status_note_line [where nt = None and ord = order0
        and u = clock0 and s = CONFIRMED, THEN conjunct1]
    by simp
  have w1: "order_notes (update_status clock0 order0 CONFIRMED (Some ''Payment received'')) =
      Some note_line0"
    using update_status_note_line [where n = "''Payment received''" and ord = order0
        and u = clock0 and s = CONFIRMED, THEN conjunct2, THEN conjunct2, THEN conjunct1]
      h note_line0_eq
    by simp
  have w2: "order_notes (update_status clock0 (order0\<lparr>order_notes := Some ''Gift''\<rparr>)
      CONFIRMED (Some ''Payment received'')) = Some (''Gift'' @ [CHR 0x0A] @ note_line0)"
    using update_status_note_line [where n = "''Payment received''"
        and ord = "order0\<lparr>order_notes := Some ''Gift''\<rparr>"
        and u = clock0 and s = CONFIRMED and old = "''Gift''",
        THEN conjunct2, THEN conjunct2, THEN conjunct2]
      h note_line0_eq
    by simp
  show ?thesis using w0 w1 w2 h by simp
qed

section \<open>Authentication\<close>

lemma find_first_match:
  "u \<in> set xs \<Longrightarrow> P u \<Longrightarrow> \<forall>v\<in>set (takeWhile (\<lambda>v. v \<noteq> u) xs). \<not> P v \<Longrightarrow>
   find P xs = Some u"
proof (induction xs)
  case Nil
  then show ?case by simp
next
  case (Cons a xs)
  show ?case
  proof (cases "a = u")
    case True
    with Cons.prems(2) show ?thesis by simp
  next
    case False
    with Cons.prems(1) have uin: "u \<in> set xs" by simp
    from False Cons.prems(3) have na: "\<not> P a"
      and rest: "\<forall>v\<in>set (takeWhile (\<lambda>v. v \<noteq> u) xs). \<not> P v" by simp_all
    have "find P xs = Some u" using Cons.IH uin Cons.prems(2) rest by blast
    with na show ?thesis by simp
  qed
qed

lemma mutate_first_match:
  "distinct (map g xs) \<Longrightarrow> u \<in> set xs \<Longrightarrow> P u \<Longrightarrow>
   \<forall>v\<in>set (takeWhile (\<lambda>v. v \<noteq> u) xs). \<not> P v \<Longrightarrow>
   mutate_first P f xs = map (\<lambda>v. if g v = g u then f v else v) xs"
proof (induction xs)
  case Nil
  then show ?case by simp
next
  case (Cons a xs)
  from Cons.prems(1) have d: "g a \<notin> g ` set xs" "distinct (map g xs)" by simp_all
  show ?case
  proof (cases "a = u")
    case True
    from d(1) have "\<forall>v\<in>set xs. g v \<noteq> g a" by (metis imageI)
    then have "map (\<lambda>v. if g v = g a then f v else v) xs = xs"
      by (simp add: map_idI)
    with True Cons.prems(3) show ?thesis by simp
  next
    case False
    with Cons.prems(2) have uin: "u \<in> set xs" by simp
    with d(1) have ne: "g a \<noteq> g u" by (metis imageI)
    from False Cons.prems(4) have na: "\<not> P a"
      and rest: "\<forall>v\<in>set (takeWhile (\<lambda>v. v \<noteq> u) xs). \<not> P v" by simp_all
    have "mutate_first P f xs = map (\<lambda>v. if g v = g u then f v else v) xs"
      using Cons.IH d(2) uin Cons.prems(3) rest by blast
    with ne na show ?thesis by simp
  qed
qed

lemma authenticate_returns_match:
  assumes "fst (authenticate check clk users x pw) = Some r"
  shows "\<exists>w. matches_login x w \<and> r = w\<lparr>last_login := Some (clk 0)\<rparr>"
proof (cases "find (matches_login x) users")
  case None
  with assms show ?thesis by (simp add: authenticate_def)
next
  case (Some w)
  then have "matches_login x w" by (auto simp: find_Some_iff)
  moreover from Some assms have "r = w\<lparr>last_login := Some (clk 0)\<rparr>"
    by (simp add: authenticate_def update_last_login_def split: if_splits)
  ultimately show ?thesis by blast
qed

lemma matches_login_touch:
  "w\<lparr>last_login := t\<rparr> = u\<lparr>last_login := t\<rparr> \<Longrightarrow> matches_login x w = matches_login x u"
proof -
  assume eq: "w\<lparr>last_login := t\<rparr> = u\<lparr>last_login := t\<rparr>"
  have "username w = username u" using arg_cong [OF eq, of username] by simp
  moreover have "email w = email u" using arg_cong [OF eq, of email] by simp
  ultimately show ?thesis by (simp add: matches_login_def)
qed

text \<open>
  Claim C8, as stated: for every stored user, \<open>authenticate\<close> returns the user when
  the input equals the user's username or email, the password verifies and the account
  is active. Usernames and emails are each unique, but a username may equal the email
  of another user; \<open>first()\<close> then tries one row only. With carol, whose username is
  alice's email, stored before alice, alice's email and password return no user.
\<close>

theorem authenticate_account_collision_counterexample:
  "alice \<in> set users1 \<and> distinct (map user.ident users1) \<and>
   distinct (map username users1) \<and> distinct (map email users1) \<and>
   matches_login ''alice@example.com'' alice \<and>
   check0 (password_hash alice) ''secret'' \<and> user.is_active alice \<and>
   authenticate check0 clock0 users1 ''alice@example.com'' ''secret'' = (None, users1)"
  by (simp add: authenticate_def users1_def alice_def carol_def matches_login_def
      check0_def check_password_def)

text \<open>
  Claim C8, amended: for a stored user and an input that matches no row the query
  yields before the user's row, \<open>authenticate\<close> returns the user with the last login
  set to the time of the call, and stores that in the user's row, exactly when the input
  equals the user's username or email, the password passes the check against the stored
  hash and the account is active. When the input matches the user and the account is
  inactive or the password is wrong, it returns no user and leaves the table as it was,
  as it does when the input matches no row at all.
\<close>

theorem authenticate_first_match:
  assumes "u \<in> set users"
    and "distinct (map user.ident users)"
    and "\<forall>v\<in>set (takeWhile (\<lambda>v. v \<noteq> u) users). \<not> matches_login x v"
  shows "(matches_login x u \<and> check (password_hash u) pw \<and> user.is_active u \<longrightarrow>
            authenticate check clk users x pw =
              (Some (u\<lparr>last_login := Some (clk 0)\<rparr>),
               map (\<lambda>v. if user.ident v = user.ident u
                        then v\<lparr>last_login := Some (clk 0)\<rparr> else v) users)) \<and>
         (matches_login x u \<and> \<not> (check (password_hash u) pw \<and> user.is_active u) \<longrightarrow>
            authenticate check clk users x pw = (None, users)) \<and>
         (\<not> matches_login x u \<longrightarrow>
            fst (authenticate check clk users x pw) \<noteq> Some (u\<lparr>last_login := Some (clk 0)\<rparr>)) \<and>
         (\<not> matches_login x u \<and> (\<forall>v\<in>set users. v \<noteq> u \<longrightarrow> \<not> matches_login x v) \<longrightarrow>
            authenticate check clk users x pw = (None, users))"
proof (cases "matches_login x u")
  case True
  have f: "find (matches_login x) users = Some u"
    using find_first_match [OF assms(1) True assms(3)] .
  have m: "mutate_first (matches_login x) (update_last_login clk) users =
      map (\<lambda>v. if user.ident v = user.ident u then update_last_login clk v else v) users"
    using mutate_first_match [OF assms(2) assms(1) True assms(3)] .
  show ?thesis
    using True f m
    by (simp add: authenticate_def check_password_def update_last_login_def)
next
  case False
  have a: "fst (authenticate check clk users x pw) \<noteq> Some (u\<lparr>last_login := Some (clk 0)\<rparr>)"
  proof
    assume "fst (authenticate check clk users x pw) = Some (u\<lparr>last_login := Some (clk 0)\<rparr>)"
    from authenticate_returns_match [OF this] obtain w where
      w: "matches_login x w" "u\<lparr>last_login := Some (clk 0)\<rparr> = w\<lparr>last_login := Some (clk 0)\<rparr>"
      by blast
    from matches_login_touch [OF w(2) [symmetric], of x] w(1) False show False by simp
  qed
  have b: "authenticate check clk users x pw = (None, users)"
    if "\<forall>v\<in>set users. v \<noteq> u \<longrightarrow> \<not> matches_login x v"
  proof -
    from that False have "\<forall>v\<in>set users. \<not> matches_login x v" by metis
    then have "find (matches_login x) users = None" by (simp add: find_None_iff)
    then show ?thesis by (simp add: authenticate_def)
  qed
  show ?thesis using False a b by blast
qed

theorem authenticate_first_match_witness:
  "alice \<in> set users2 \<and> distinct (map user.ident users2) \<and>
   matches_login ''alice@example.com'' alice \<and> matches_login ''alice@example.com'' carol \<and>
   check0 (password_hash alice) ''secret'' \<and> user.is_active alice \<and>
   authenticate check0 clock0 users2 ''alice@example.com'' ''secret'' =
     (Some (alice\<lparr>last_login := Some (clock0 0)\<rparr>),
      [alice\<lparr>last_login := Some (clock0 0)\<rparr>, carol]) \<and>
   \<not> check0 (password_hash alice) ''wrong'' \<and>
   authenticate check0 clock0 users2 ''alice'' ''wrong'' = (None, users2) \<and>
   bob \<in> set users0 \<and> distinct (map user.ident users0) \<and>
   matches_login ''bob'' bob \<and> check0 (password_hash bob) ''hunter2'' \<and>
   \<not> user.is_active bob \<and>
   authenticate check0 clock0 users0 ''bob'' ''hunter2'' = (None, users0) \<and>
   \<not> matches_login ''nobody'' bob \<and>
   authenticate check0 clock0 users0 ''nobody'' ''hunter2'' = (None, users0)"
proof -
  have h: "alice \<in> set users2" "distinct (map user.ident users2)"
    "bob \<in> set users0" "distinct (map user.ident users0)"
    by (simp_all add: users0_def users2_def alice_def bob_def carol_def)
  have t: "\<forall>v\<in>set (takeWhile (\<lambda>v. v \<noteq> alice) users2). \<not> matches_login ''alice@example.com'' v"
    "\<forall>v\<in>set (takeWhile (\<lambda>v. v \<noteq> alice) users2). \<not> matches_login ''alice'' v"
    "\<forall>v\<in>set (takeWhile (\<lambda>v. v \<noteq> bob) users0). \<not> matches_login ''bob'' v"
    "\<forall>v\<in>set (takeWhile (\<lambda>v. v \<noteq> bob) users0). \<not> matches_login ''nobody'' v"
    by (simp_all add: users0_def users2_def alice_def bob_def matches_login_def)
  have g: "matches_login ''alice@example.com'' alice" "matches_login ''alice@example.com'' carol"
    "matches_login ''alice'' alice"
    "check0 (password_hash alice) ''secret''" "user.is_active alice"
    "\<not> check0 (password_hash alice) ''wrong''"
    "matches_login ''bob'' bob" "check0 (password_hash bob) ''hunter2''"
    "\<not> user.is_active bob" "\<not> matches_login ''nobody'' bob"
    "\<forall>v\<in>set users0. v \<noteq> bob \<longrightarrow> \<not> matches_login ''nobody'' v"
    by (simp_all add: users0_def alice_def bob_def carol_def matches_login_def check0_def)
  have m: "map (\<lambda>v. if user.ident v = user.ident alice
                      then v\<lparr>last_login := Some (clock0 0)\<rparr> else v) users2 =
           [alice\<lparr>last_login := Some (clock0 0)\<rparr>, carol]"
    by (simp add: users2_def alice_def carol_def)
  have w1: "authenticate check0 clock0 users2 ''alice@example.com'' ''secret'' =
     (Some (alice\<lparr>last_login := Some (clock0 0)\<rparr>),
      [alice\<lparr>last_login := Some (clock0 0)\<rparr>, carol])"
    using authenticate_first_match [OF h(1) h(2) t(1), of check0 "''secret''" clock0,
        THEN conjunct1] g(1,4,5) m
    by simp
  have w2: "authenticate check0 clock0 users2 ''alice'' ''wrong'' = (None, users2)"
    using authenticate_first_match [OF h(1) h(2) t(2), of check0 "''wrong''" clock0,
        THEN conjunct2, THEN conjunct1] g(3,6)
    by simp
  have w3: "authenticate check0 clock0 users0 ''bob'' ''hunter2'' = (None, users0)"
    using authenticate_first_match [OF h(3) h(4) t(3), of check0 "''hunter2''" clock0,
        THEN conjunct2, THEN conjunct1] g(7,9)
    by simp
  have w4: "authenticate check0 clock0 users0 ''nobody'' ''hunter2'' = (None, users0)"
    using authenticate_first_match [OF h(3) h(4) t(4), of check0 "''hunter2''" clock0,
        THEN conjunct2, THEN conjunct2, THEN conjunct2] g(10,11)
    by simp
  show ?thesis using h g(1,2,4-10) w1 w2 w3 w4 by simp
qed

section \<open>Deleting a category\<close>

lemma truthy_query_always: "truthy_query q"
  by (cases q) simp

lemma delete_category_keeps_db: "snd (delete_category db cid) = db"
  by (simp add: delete_category_def truthy_query_always split: option.splits)

text \<open>
  Claim C2 on a category without products: the route answers with the refusal and the
  category stays in the table, where the claim has the deletion succeed.
\<close>

theorem delete_category_without_products_refused:
  "find (\<lambda>c. category.ident c = 2) (categories db0) = Some toys \<and>
   rows (category_products db0 toys) = [] \<and>
   delete_category db0 2 = (RedirectToCategories CannotDeleteCategoryWithProducts, db0) \<and>
   toys \<in> set (categories (snd (delete_category db0 2)))"
  by (simp add: delete_category_def category_products_def db0_def toys_def widget_def)

end
